theory Spec2Isabelle
  imports Complex_Main
begin

section \<open>The VisualChart broker of backtrader (brokers/vcbroker.py)\<close>

text \<open>
  The theory embeds class \<^verbatim>\<open>VCBroker\<close>: the order translator \<^verbatim>\<open>_makeorder\<close>, the
  submission path (\<^verbatim>\<open>submit\<close>, \<^verbatim>\<open>buy\<close>, \<^verbatim>\<open>sell\<close>), the notification queue and the COM
  event handlers. The broker object is a record that every method takes and returns;
  a method's result is a pair of what the call gives back (\<open>Inl\<close> an exception that
  leaves the method, \<open>Inr\<close> a return value) and the broker afterwards. The two locks
  are not modelled: every method runs to its end before the next one starts.
\<close>

subsection \<open>Python values\<close>

datatype error = KeyError | IndexError | AttributeError | VenueError string

text \<open>
  The values that reach the broker untyped: the \<^verbatim>\<open>valid\<close> argument, the extra keyword
  arguments and the attributes of the venue's order request. A date is a day number, a
  datetime and a timedelta are counts of microseconds. The range limits of Python's
  datetime are not modelled.
\<close>

datatype pyval =
    PyNone
  | PyInt int
  | PyFloat real
  | PyStr string
  | PyDate int
  | PyDatetime int
  | PyTimedelta int

definition of_price :: "real option \<Rightarrow> pyval" where
  "of_price p = (case p of None \<Rightarrow> PyNone | Some x \<Rightarrow> PyFloat x)"

definition of_name :: "string option \<Rightarrow> pyval" where
  "of_name a = (case a of None \<Rightarrow> PyNone | Some x \<Rightarrow> PyStr x)"

text \<open>\<^verbatim>\<open>price or plimit\<close>: the first operand unless it is None or zero.\<close>

definition py_or :: "real option \<Rightarrow> real option \<Rightarrow> real option" where
  "py_or a b = (case a of None \<Rightarrow> b | Some x \<Rightarrow> if x = 0 then b else Some x)"

text \<open>\<^verbatim>\<open>'{}'.format(n)\<close> for an integer: its decimal digits.\<close>

definition digit :: "nat \<Rightarrow> char" where
  "digit n = ''0123456789'' ! (n mod 10)"

function str_nat :: "nat \<Rightarrow> string" where
  "str_nat n = (if n < 10 then [digit n] else str_nat (n div 10) @ [digit n])"
  by pat_completeness auto
termination
  by (relation "measure id") auto

definition str_int :: "int \<Rightarrow> string" where
  "str_int i = (if i < 0 then CHR ''-'' # str_nat (nat (- i)) else str_nat (nat i))"

subsection \<open>What vcbroker.py imports\<close>

text \<open>
  The commission scheme attached to an order: the four methods of \<^verbatim>\<open>CommInfoBase\<close> that
  the broker calls. The scheme is pluggable, so the methods are fields.
\<close>

record CommInfo =
  getoperationcost :: "real \<Rightarrow> real \<Rightarrow> real"
  getcommission :: "real \<Rightarrow> real \<Rightarrow> real"
  profitandloss :: "real \<Rightarrow> real \<Rightarrow> real \<Rightarrow> real"
  getvaluesize :: "real \<Rightarrow> real \<Rightarrow> real"

text \<open>
  Class \<^verbatim>\<open>VCCommInfo(CommInfoBase)\<close> overrides two methods of its base class and
  inherits the others.
\<close>

definition VCCommInfo :: "CommInfo \<Rightarrow> CommInfo" where
  "VCCommInfo base = base
     \<lparr> getoperationcost := (\<lambda>size price. \<bar>size\<bar> * price),
       getvaluesize := (\<lambda>size price. \<bar>size\<bar> * price) \<rparr>"

text \<open>
  The parts of the backtrader package whose definitions are outside vcbroker.py and that
  the spec leaves open, taken as parameters: the constructor of \<^verbatim>\<open>CommInfoBase\<close> (from
  \<^verbatim>\<open>mult\<close> and \<^verbatim>\<open>stocklike\<close>) and the constant \<^verbatim>\<open>Order.DAY\<close>, a timedelta.
\<close>

record backtrader =
  CommInfoBase :: "real \<Rightarrow> bool \<Rightarrow> CommInfo"
  Order_DAY :: int

datatype ordtype = Buy | Sell

datatype exectype = Market | Close | Limit | Stop | StopLimit

datatype trestriction = T_None | T_Date | T_Close | T_Day

datatype status = Created | Submitted | Accepted | Partial | Completed | Canceled

text \<open>A data feed: \<^verbatim>\<open>data._tradename\<close>, \<^verbatim>\<open>data._syminfo.Type\<close>, \<^verbatim>\<open>data._syminfo.PointValue\<close>.\<close>

record data =
  tradename :: string
  syminfo_Type :: int
  syminfo_PointValue :: real

text \<open>The request object of the venue, \<^verbatim>\<open>vcctmod.Order()\<close>: its attributes by name.\<close>

type_synonym vcorder = "string \<rightharpoonup> pyval"

text \<open>
  What \<^verbatim>\<open>SendOrder\<close> returns when it does not raise: the venue's identifier, or None.
  The broker uses the value as it comes, as the key of its registry.
\<close>

type_synonym oid = "string option"

text \<open>
  The store: the code constants of the modules \<^verbatim>\<open>vcctmod\<close> and \<^verbatim>\<open>vcdsmod\<close>, and the
  request object that \<^verbatim>\<open>vcctmod.Order()\<close> creates. Their values are parameters.
\<close>

record VCStore =
  OT_Market :: int
  OT_Limit :: int
  OT_StopMarket :: int
  OT_StopLimit :: int
  OS_Buy :: int
  OS_Sell :: int
  TR_NoRestriction :: int
  TR_Date :: int
  TR_CloseAuction :: int
  TR_Session :: int
  VR_NoRestriction :: int
  IT_Future :: int
  IT_Option :: int
  IT_Fund :: int
  vcctmod_Order :: vcorder

subsection \<open>Position and Order\<close>

text \<open>The attributes \<^verbatim>\<open>size\<close> and \<^verbatim>\<open>price\<close> of a Position.\<close>

record Position =
  size_pos :: real
  price_pos :: real

text \<open>
  Modelled from the spec: the constructor of class Position (position.py is not part of
  the sources). "created lazily on first access per instrument (default zero position)".
\<close>

definition Position_new :: Position where
  "Position_new = \<lparr> size_pos = 0, price_pos = 0 \<rparr>"

text \<open>
  Modelled from the spec: \<^verbatim>\<open>Position.update\<close> (position.py is not part of the sources),
  after section 4.1. The closed quantity is the part of the signed fill that reduces the
  position towards zero: bounded in magnitude by the current size and of the opposite
  sign. The opened quantity is the remainder. The average price is blended over the
  opened part only and is left as it is when nothing is opened. The result is the
  position afterwards with the opened and the closed quantity.
\<close>

definition Position_update :: "Position \<Rightarrow> real \<Rightarrow> real \<Rightarrow> Position \<times> real \<times> real" where
  "Position_update pos dsize execprice =
     (let closed =
            (if size_pos pos > 0 \<and> dsize < 0 then max dsize (- size_pos pos)
             else if size_pos pos < 0 \<and> dsize > 0 then min dsize (- size_pos pos)
             else 0);
          opened = dsize - closed;
          kept = size_pos pos + closed;
          newsize = size_pos pos + dsize;
          newprice =
            (if opened = 0 then price_pos pos
             else (price_pos pos * kept + execprice * opened) / newsize)
      in (\<lparr> size_pos = newsize, price_pos = newprice \<rparr>, opened, closed))"

text \<open>One fill of an order, as \<^verbatim>\<open>border.execute\<close> receives it.\<close>

record execbit =
  dt :: real
  ex_size :: real
  ex_price :: real
  closed :: real
  closedvalue :: real
  closedcomm :: real
  opened :: real
  openedvalue :: real
  openedcomm :: real
  margin :: real
  pnl :: real
  psize :: real
  pprice :: real

text \<open>
  An order of the engine (\<^verbatim>\<open>BuyOrder\<close>, \<^verbatim>\<open>SellOrder\<close>): the arguments it was created
  from, its status, the identifier and the commission scheme that \<^verbatim>\<open>submit\<close> attaches,
  and its fills.
\<close>

record order =
  ordtype :: ordtype
  data :: data
  o_size :: real
  o_price :: "real option"
  pricelimit :: "real option"
  exectype :: "exectype option"
  valid :: pyval
  tradeid :: int
  info :: "(string \<times> pyval) list"
  status :: status
  vcorder :: "oid option"
  comminfo :: "CommInfo option"
  executed :: "execbit list"

text \<open>
  Modelled from the spec: the constructors \<^verbatim>\<open>BuyOrder\<close> and \<^verbatim>\<open>SellOrder\<close> and the methods
  of class Order (order.py is not part of the sources). An order holds its "immutable
  intent fields" and a "mutable lifecycle status"; \<open>Created\<close> stands for the status of an
  order that was not submitted yet.
\<close>

definition Order_new ::
  "ordtype \<Rightarrow> data \<Rightarrow> real \<Rightarrow> real option \<Rightarrow> real option \<Rightarrow> exectype option \<Rightarrow> pyval \<Rightarrow> int \<Rightarrow> order"
where
  "Order_new ot d sz pr pl et v tid =
     \<lparr> ordtype = ot, data = d, o_size = sz, o_price = pr, pricelimit = pl, exectype = et,
       valid = v, tradeid = tid, info = [], status = Created, vcorder = None,
       comminfo = None, executed = [] \<rparr>"

definition Order_addinfo :: "(string \<times> pyval) list \<Rightarrow> order \<Rightarrow> order" where
  "Order_addinfo kwargs ord = ord\<lparr> info := info ord @ kwargs \<rparr>"

definition Order_issell :: "order \<Rightarrow> bool" where
  "Order_issell ord = (ordtype ord = Sell)"

text \<open>
  Modelled from the spec: section 4.5 "mark order status submitted"; section 4.6 "if
  order found, transition to Accepted", "transition to Cancelled", "Set status to
  PartiallyFilled if partial else Completed". The spec gives these transitions no
  condition on the status before.
\<close>

definition Order_submit :: "order \<Rightarrow> order" where
  "Order_submit ord = ord\<lparr> status := Submitted \<rparr>"

definition Order_accept :: "order \<Rightarrow> order" where
  "Order_accept ord = ord\<lparr> status := Accepted \<rparr>"

definition Order_cancel :: "order \<Rightarrow> order" where
  "Order_cancel ord = ord\<lparr> status := Canceled \<rparr>"

definition Order_partial :: "order \<Rightarrow> order" where
  "Order_partial ord = ord\<lparr> status := Partial \<rparr>"

definition Order_completed :: "order \<Rightarrow> order" where
  "Order_completed ord = ord\<lparr> status := Completed \<rparr>"

text \<open>
  Modelled from the spec: \<^verbatim>\<open>Order.execute\<close>, section 4.6 step 4: "append a fill entry
  carrying timestamp, size, price, the five computed monetary figures, margin figure, and
  the resulting position".
\<close>

definition Order_execute :: "order \<Rightarrow> execbit \<Rightarrow> order" where
  "Order_execute ord fill = ord\<lparr> executed := executed ord @ [fill] \<rparr>"

subsection \<open>The broker object\<close>

text \<open>An entry of \<^verbatim>\<open>trader.Accounts\<close>: the account's name and its balance.\<close>

record account =
  Account :: string
  Cash :: real
  NetWorth :: real

text \<open>The order object that the venue passes to a callback.\<close>

record vcevent =
  OrderId :: oid
  Price :: real
  Volume :: real

text \<open>
  The attributes of a \<^verbatim>\<open>VCBroker\<close>. \<open>value_f\<close> is \<^verbatim>\<open>self.value\<close>, \<open>p_account\<close> is the
  parameter \<^verbatim>\<open>self.p.account\<close>, \<open>comminfo_d\<close> is the dictionary \<^verbatim>\<open>self.comminfo\<close> of the
  base class and \<open>has_trader\<close> says whether \<^verbatim>\<open>self.trader\<close> was assigned. \<open>None\<close> in
  \<open>notifs\<close> is the mark that \<^verbatim>\<open>next\<close> appends. The registry holds one order object per
  identifier.
\<close>

record VCBroker =
  store :: VCStore
  p_account :: "string option"
  acc_name :: "string option"
  startingcash :: real
  cash :: real
  startingvalue :: real
  value_f :: real
  positions :: "string \<rightharpoonup> Position"
  orderbyid :: "oid \<rightharpoonup> order"
  notifs :: "order option list"
  comminfo_d :: "string option \<rightharpoonup> CommInfo option"
  has_trader :: bool

text \<open>\<^verbatim>\<open>__init__\<close>, from the store, the account parameter and the dictionary of the base class.\<close>

definition VCBroker_init ::
  "VCStore \<Rightarrow> string option \<Rightarrow> (string option \<rightharpoonup> CommInfo option) \<Rightarrow> VCBroker"
where
  "VCBroker_init st acct cd =
     \<lparr> store = st, p_account = acct, acc_name = None,
       startingcash = 0, cash = 0, startingvalue = 0, value_f = 0,
       positions = Map.empty, orderbyid = Map.empty, notifs = [],
       comminfo_d = cd, has_trader = False \<rparr>"

text \<open>The four dictionaries that \<^verbatim>\<open>__init__\<close> builds from the store's constants.\<close>

definition otypes :: "VCStore \<Rightarrow> exectype option \<rightharpoonup> int" where
  "otypes st =
     [Some Market \<mapsto> OT_Market st, Some Close \<mapsto> OT_Market st, Some Limit \<mapsto> OT_Limit st,
      Some Stop \<mapsto> OT_StopMarket st, Some StopLimit \<mapsto> OT_StopLimit st]"

definition osides :: "VCStore \<Rightarrow> ordtype \<rightharpoonup> int" where
  "osides st = [Buy \<mapsto> OS_Buy st, Sell \<mapsto> OS_Sell st]"

fun otrestriction :: "VCStore \<Rightarrow> trestriction \<Rightarrow> int" where
  "otrestriction st T_None = TR_NoRestriction st"
| "otrestriction st T_Date = TR_Date st"
| "otrestriction st T_Close = TR_CloseAuction st"
| "otrestriction st T_Day = TR_Session st"

definition ovrestriction :: "VCStore \<Rightarrow> int" where
  "ovrestriction st = VR_NoRestriction st"

definition futlikes :: "VCStore \<Rightarrow> int list" where
  "futlikes st = [IT_Future st, IT_Option st, IT_Fund st]"

definition getcash :: "VCBroker \<Rightarrow> real" where
  "getcash self = cash self"

definition getvalue :: "VCBroker \<Rightarrow> real" where
  "getvalue self = value_f self"

text \<open>
  \<^verbatim>\<open>self.notifs.popleft()\<close>: the oldest entry leaves the queue; on an empty deque
  \<^verbatim>\<open>popleft\<close> raises IndexError.
\<close>

definition get_notification :: "VCBroker \<Rightarrow> (error + order option) \<times> VCBroker" where
  "get_notification self =
     (case notifs self of
        [] \<Rightarrow> (Inl IndexError, self)
      | n # ns \<Rightarrow> (Inr n, self\<lparr> notifs := ns \<rparr>))"

text \<open>\<^verbatim>\<open>self.notifs.append(order.clone())\<close>: the queue gets the order as it is now.\<close>

definition notify :: "VCBroker \<Rightarrow> order \<Rightarrow> VCBroker" where
  "notify self ord = self\<lparr> notifs := notifs self @ [Some ord] \<rparr>"

text \<open>Method \<^verbatim>\<open>next\<close>.\<close>

definition next_tick :: "VCBroker \<Rightarrow> VCBroker" where
  "next_tick self = self\<lparr> notifs := notifs self @ [None] \<rparr>"

text \<open>
  \<^verbatim>\<open>self.positions\<close> is a \<^verbatim>\<open>defaultdict(Position)\<close>: reading a missing key stores a new
  Position under it. The result is the position and the broker afterwards; a clone is
  the same value.
\<close>

definition getposition :: "VCBroker \<Rightarrow> data \<Rightarrow> Position \<times> VCBroker" where
  "getposition self d =
     (case positions self (tradename d) of
        Some pos \<Rightarrow> (pos, self)
      | None \<Rightarrow>
          (Position_new,
           self\<lparr> positions := (positions self)(tradename d \<mapsto> Position_new) \<rparr>))"

definition getcommissioninfo ::
  "backtrader \<Rightarrow> VCBroker \<Rightarrow> data \<Rightarrow> error + CommInfo option"
where
  "getcommissioninfo bt self d =
     (case comminfo_d self (Some (tradename d)) of
        Some c \<Rightarrow> Inr c
      | None \<Rightarrow>
          (case comminfo_d self None of
             None \<Rightarrow> Inl KeyError
           | Some (Some c) \<Rightarrow> Inr (Some c)
           | Some None \<Rightarrow>
               (let stocklike = (syminfo_Type d \<in> set (futlikes (store self)))
                in Inr (Some (VCCommInfo (CommInfoBase bt (syminfo_PointValue d) stocklike))))))"

subsection \<open>The order translator\<close>

text \<open>
  Method \<^verbatim>\<open>_makeorder\<close>, in the three parts it is written in. The argument \<^verbatim>\<open>owner\<close> is
  not used by the method and is left out; \<open>now\<close> is what \<^verbatim>\<open>datetime.now()\<close> returns.

  First part: the attributes up to the prices. The two dictionary reads raise KeyError on
  a key that the dictionary does not hold, as \<^verbatim>\<open>exectype=None\<close>.
\<close>

definition makeorder_fields ::
  "VCBroker \<Rightarrow> ordtype \<Rightarrow> data \<Rightarrow> real \<Rightarrow> real option \<Rightarrow> real option \<Rightarrow> exectype option \<Rightarrow> int
     \<Rightarrow> error + vcorder"
where
  "makeorder_fields self otp d sz pr plimit etp tid =
     (case otypes (store self) etp of
        None \<Rightarrow> Inl KeyError
      | Some otype \<Rightarrow>
     (case osides (store self) otp of
        None \<Rightarrow> Inl KeyError
      | Some oside \<Rightarrow>
     (let ord = vcctmod_Order (store self);
          ord = ord(''Account'' \<mapsto> of_name (acc_name self));
          ord = ord(''SymbolCode'' \<mapsto> PyStr (tradename d));
          ord = ord(''OrderType'' \<mapsto> PyInt otype);
          ord = ord(''OrderSide'' \<mapsto> PyInt oside);
          ord = ord(''VolumeRestriction'' \<mapsto> PyInt (ovrestriction (store self)));
          ord = ord(''HideVolume'' \<mapsto> PyInt 0);
          ord = ord(''MinVolume'' \<mapsto> PyInt 0);
          ord = ord(''UserOrderId'' \<mapsto> PyStr []);
          ord = (if tid \<noteq> 0
                 then ord(''ExtendedInfo'' \<mapsto> PyStr (''TradeId '' @ str_int tid))
                 else ord(''ExtendedInfo'' \<mapsto> PyStr []));
          ord = ord(''Volume'' \<mapsto> PyFloat \<bar>sz\<bar>);
          ord = ord(''StopPrice'' \<mapsto> PyFloat 0);
          ord = ord(''Price'' \<mapsto> PyFloat 0);
          ord = (if etp = Some Market then ord
                 else if etp = Some Limit then ord(''Price'' \<mapsto> of_price (py_or pr plimit))
                 else if etp = Some Close then ord
                 else if etp = Some Stop then ord(''StopPrice'' \<mapsto> of_price pr)
                 else if etp = Some StopLimit
                   then (ord(''StopPrice'' \<mapsto> of_price pr))(''Price'' \<mapsto> of_price plimit)
                 else ord)
      in Inr ord)))"

text \<open>
  Second part: the time restriction. The last branch of the source is
  \<^verbatim>\<open>elif not self.valid\<close>; a \<^verbatim>\<open>VCBroker\<close> has no attribute \<^verbatim>\<open>valid\<close>, so reading it raises
  AttributeError.
\<close>

definition makeorder_valid ::
  "VCBroker \<Rightarrow> backtrader \<Rightarrow> int \<Rightarrow> exectype option \<Rightarrow> pyval \<Rightarrow> vcorder \<Rightarrow> error + vcorder"
where
  "makeorder_valid self bt now etp vld ord0 =
     (let ord = ord0(''ValidDate'' \<mapsto> PyNone)
      in if etp = Some Close
         then Inr (ord(''TimeRestriction'' \<mapsto> PyInt (otrestriction (store self) T_Close)))
         else
           (case vld of
              PyNone \<Rightarrow>
                Inr (ord(''TimeRestriction'' \<mapsto> PyInt (otrestriction (store self) T_None)))
            | PyDatetime t \<Rightarrow>
                Inr ((ord(''TimeRestriction'' \<mapsto> PyInt (otrestriction (store self) T_Date)))
                       (''ValidDate'' \<mapsto> vld))
            | PyDate t \<Rightarrow>
                Inr ((ord(''TimeRestriction'' \<mapsto> PyInt (otrestriction (store self) T_Date)))
                       (''ValidDate'' \<mapsto> vld))
            | PyTimedelta td \<Rightarrow>
                (if td = Order_DAY bt
                 then Inr (ord(''TimeRestriction'' \<mapsto> PyInt (otrestriction (store self) T_Day)))
                 else
                   Inr ((ord(''TimeRestriction'' \<mapsto> PyInt (otrestriction (store self) T_Date)))
                          (''ValidDate'' \<mapsto> PyDatetime (now + td))))
            | _ \<Rightarrow> Inl AttributeError))"

text \<open>
  Third part: the extra keyword arguments. \<^verbatim>\<open>hasattr(order, k)\<close> holds for the attributes
  that the request object has; \<^verbatim>\<open>setattr\<close> stores the value. \<^verbatim>\<open>kwargs\<close> is a dictionary:
  its items in the order of iteration.
\<close>

definition hasattr :: "vcorder \<Rightarrow> string \<Rightarrow> bool" where
  "hasattr ord k = (ord k \<noteq> None)"

definition makeorder_kwargs :: "(string \<times> pyval) list \<Rightarrow> vcorder \<Rightarrow> vcorder" where
  "makeorder_kwargs kwargs ord0 =
     fold (\<lambda>(k, v) ord. if hasattr ord k then ord(k \<mapsto> v) else ord) kwargs ord0"

definition makeorder ::
  "VCBroker \<Rightarrow> backtrader \<Rightarrow> int \<Rightarrow> ordtype \<Rightarrow> data \<Rightarrow> real \<Rightarrow> real option \<Rightarrow> real option
     \<Rightarrow> exectype option \<Rightarrow> pyval \<Rightarrow> int \<Rightarrow> (string \<times> pyval) list \<Rightarrow> error + vcorder"
where
  "makeorder self bt now otp d sz pr plimit etp vld tid kwargs =
     (case makeorder_fields self otp d sz pr plimit etp tid of
        Inl e \<Rightarrow> Inl e
      | Inr ord \<Rightarrow>
          (case makeorder_valid self bt now etp vld ord of
             Inl e \<Rightarrow> Inl e
           | Inr ord \<Rightarrow> Inr (makeorder_kwargs kwargs ord)))"

subsection \<open>Submission\<close>

text \<open>
  Method \<^verbatim>\<open>submit\<close>. \<open>send\<close> is the venue's \<^verbatim>\<open>SendOrder\<close> at this call: from the ten
  arguments it raises or returns a value. Reading an attribute that the request does not
  have raises AttributeError. Before the registry is written only the order object
  changes, so an exception leaves the broker as it was.
\<close>

definition sendorder_args :: "string list" where
  "sendorder_args =
     [''Account'', ''SymbolCode'', ''OrderType'', ''OrderSide'', ''Volume'', ''Price'',
      ''StopPrice'', ''VolumeRestriction'', ''TimeRestriction'', ''ValidDate'']"

definition submit ::
  "VCBroker \<Rightarrow> backtrader \<Rightarrow> (pyval list \<Rightarrow> error + oid) \<Rightarrow> order \<Rightarrow> vcorder
     \<Rightarrow> (error + order) \<times> VCBroker"
where
  "submit self bt send ord0 vco =
     (let ord = Order_submit ord0
      in case those (map vco sendorder_args) of
           None \<Rightarrow> (Inl AttributeError, self)
         | Some args \<Rightarrow>
        (case send args of
           Inl e \<Rightarrow> (Inl e, self)
         | Inr oid \<Rightarrow>
        (let ord = ord\<lparr> vcorder := Some oid \<rparr>
         in case getcommissioninfo bt self (data ord) of
              Inl e \<Rightarrow> (Inl e, self)
            | Inr ci \<Rightarrow>
                (let ord = ord\<lparr> comminfo := ci \<rparr>;
                     self = self\<lparr> orderbyid := (orderbyid self)(oid \<mapsto> ord) \<rparr>
                 in (Inr ord, notify self ord)))))"

definition buy ::
  "VCBroker \<Rightarrow> backtrader \<Rightarrow> int \<Rightarrow> (pyval list \<Rightarrow> error + oid) \<Rightarrow> data \<Rightarrow> real \<Rightarrow> real option
     \<Rightarrow> real option \<Rightarrow> exectype option \<Rightarrow> pyval \<Rightarrow> int \<Rightarrow> (string \<times> pyval) list
     \<Rightarrow> (error + order) \<times> VCBroker"
where
  "buy self bt now send d sz pr plimit etp vld tid kwargs =
     (let ord = Order_addinfo kwargs (Order_new Buy d sz pr plimit etp vld tid)
      in case makeorder self bt now (ordtype ord) d sz pr plimit etp vld tid kwargs of
           Inl e \<Rightarrow> (Inl e, self)
         | Inr vco \<Rightarrow> submit self bt send ord vco)"

definition sell ::
  "VCBroker \<Rightarrow> backtrader \<Rightarrow> int \<Rightarrow> (pyval list \<Rightarrow> error + oid) \<Rightarrow> data \<Rightarrow> real \<Rightarrow> real option
     \<Rightarrow> real option \<Rightarrow> exectype option \<Rightarrow> pyval \<Rightarrow> int \<Rightarrow> (string \<times> pyval) list
     \<Rightarrow> (error + order) \<times> VCBroker"
where
  "sell self bt now send d sz pr plimit etp vld tid kwargs =
     (let ord = Order_addinfo kwargs (Order_new Sell d sz pr plimit etp vld tid)
      in case makeorder self bt now (ordtype ord) d sz pr plimit etp vld tid kwargs of
           Inl e \<Rightarrow> (Inl e, self)
         | Inr vco \<Rightarrow> submit self bt send ord vco)"

subsection \<open>The COM events\<close>

text \<open>
  \<^verbatim>\<open>__call__\<close>: the first account of \<^verbatim>\<open>trader.Accounts\<close> that the account parameter
  selects gives the starting balance and the name of the account.
\<close>

definition call :: "VCBroker \<Rightarrow> account list \<Rightarrow> VCBroker" where
  "call self accounts =
     (let self = self\<lparr> has_trader := True \<rparr>
      in case find (\<lambda>acc. p_account self = None \<or> p_account self = Some (Account acc)) accounts of
           None \<Rightarrow> self
         | Some acc \<Rightarrow>
             self\<lparr> startingcash := Cash acc, cash := Cash acc,
                   startingvalue := NetWorth acc, value_f := NetWorth acc,
                   acc_name := Some (Account acc) \<rparr>)"

text \<open>
  \<open>accounts\<close> is \<^verbatim>\<open>self.trader.Accounts\<close> at the time of the event; reading
  \<^verbatim>\<open>self.trader\<close> before \<^verbatim>\<open>__call__\<close> assigned it raises AttributeError.
\<close>

definition OnChangedBalance ::
  "VCBroker \<Rightarrow> account list \<Rightarrow> string \<Rightarrow> (error + unit) \<times> VCBroker"
where
  "OnChangedBalance self accounts acct =
     (if acc_name self = None \<or> acc_name self \<noteq> Some acct then (Inr (), self)
      else if \<not> has_trader self then (Inl AttributeError, self)
      else
        (case find (\<lambda>acc. Account acc = acct) accounts of
           None \<Rightarrow> (Inr (), self)
         | Some acc \<Rightarrow> (Inr (), self\<lparr> cash := Cash acc, value_f := NetWorth acc \<rparr>)))"

definition OnModifiedOrder :: "VCBroker \<Rightarrow> vcevent \<Rightarrow> (error + unit) \<times> VCBroker" where
  "OnModifiedOrder self ev = (Inr (), self)"

definition OnCancelledOrder :: "VCBroker \<Rightarrow> vcevent \<Rightarrow> (error + unit) \<times> VCBroker" where
  "OnCancelledOrder self ev =
     (case orderbyid self (OrderId ev) of
        None \<Rightarrow> (Inr (), self)
      | Some border \<Rightarrow>
          (let border = Order_cancel border;
               self = self\<lparr> orderbyid := (orderbyid self)(OrderId ev \<mapsto> border) \<rparr>
           in (Inr (), notify self border)))"

text \<open>
  \<open>dtime\<close> is \<^verbatim>\<open>border.data.datetime[0]\<close> at the time of the event. The position is
  updated before the commission scheme is read, so the update stays when the order has
  no scheme and the read raises AttributeError.
\<close>

definition OnExecutedOrder ::
  "VCBroker \<Rightarrow> real \<Rightarrow> vcevent \<Rightarrow> bool \<Rightarrow> (error + unit) \<times> VCBroker"
where
  "OnExecutedOrder self dtime ev part =
     (case orderbyid self (OrderId ev) of
        None \<Rightarrow> (Inr (), self)
      | Some border \<Rightarrow>
          (let fprice = Price ev;
               fsize = Volume ev;
               fsize = (if Order_issell border then fsize * (- 1) else fsize);
               (position, self) = getposition self (data border);
               pprice_orig = price_pos position;
               (position, fopened, fclosed) = Position_update position fsize fprice;
               self = self\<lparr> positions :=
                        (positions self)(tradename (data border) \<mapsto> position) \<rparr>
           in case comminfo border of
                None \<Rightarrow> (Inl AttributeError, self)
              | Some ci \<Rightarrow>
                  (let border = Order_execute border
                         \<lparr> dt = dtime, ex_size = fsize, ex_price = fprice,
                           closed = fclosed,
                           closedvalue = getoperationcost ci fclosed pprice_orig,
                           closedcomm = getcommission ci fclosed fprice,
                           opened = fopened,
                           openedvalue = getoperationcost ci fopened fprice,
                           openedcomm = getcommission ci fopened fprice,
                           margin = getvaluesize ci fsize fprice,
                           pnl = profitandloss ci (- fclosed) pprice_orig fprice,
                           psize = size_pos position, pprice = price_pos position \<rparr>;
                       border = (if part then Order_partial border else Order_completed border);
                       self = self\<lparr> orderbyid := (orderbyid self)(OrderId ev \<mapsto> border) \<rparr>
                   in (Inr (), notify self border))))"

definition OnTotalExecutedOrder ::
  "VCBroker \<Rightarrow> real \<Rightarrow> vcevent \<Rightarrow> (error + unit) \<times> VCBroker"
where
  "OnTotalExecutedOrder self dtime ev = OnExecutedOrder self dtime ev False"

definition OnPartialExecutedOrder ::
  "VCBroker \<Rightarrow> real \<Rightarrow> vcevent \<Rightarrow> (error + unit) \<times> VCBroker"
where
  "OnPartialExecutedOrder self dtime ev = OnExecutedOrder self dtime ev True"

definition OnOrderInMarket :: "VCBroker \<Rightarrow> vcevent \<Rightarrow> (error + unit) \<times> VCBroker" where
  "OnOrderInMarket self ev =
     (case orderbyid self (OrderId ev) of
        None \<Rightarrow> (Inr (), self)
      | Some border \<Rightarrow>
          (let border = Order_accept border;
               self = self\<lparr> orderbyid := (orderbyid self)(OrderId ev \<mapsto> border) \<rparr>
           in (Inr (), notify self border)))"

definition OnNewOrderLocation :: "VCBroker \<Rightarrow> vcevent \<Rightarrow> (error + unit) \<times> VCBroker" where
  "OnNewOrderLocation self ev = (Inr (), self)"

definition OnChangedOpenPositions :: "VCBroker \<Rightarrow> string \<Rightarrow> (error + unit) \<times> VCBroker" where
  "OnChangedOpenPositions self acct = (Inr (), self)"

definition OnNewClosedOperations :: "VCBroker \<Rightarrow> string \<Rightarrow> (error + unit) \<times> VCBroker" where
  "OnNewClosedOperations self acct = (Inr (), self)"

definition OnServerShutDown :: "VCBroker \<Rightarrow> (error + unit) \<times> VCBroker" where
  "OnServerShutDown self = (Inr (), self)"

subsection \<open>Replaying events\<close>

text \<open>The callbacks that carry an order, with the time of the data feed for a fill.\<close>

datatype callback =
    InMarket vcevent
  | Cancelled vcevent
  | PartialExecuted real vcevent
  | TotalExecuted real vcevent

fun deliver :: "VCBroker \<Rightarrow> callback \<Rightarrow> (error + unit) \<times> VCBroker" where
  "deliver self (InMarket ev) = OnOrderInMarket self ev"
| "deliver self (Cancelled ev) = OnCancelledOrder self ev"
| "deliver self (PartialExecuted dtime ev) = OnPartialExecutedOrder self dtime ev"
| "deliver self (TotalExecuted dtime ev) = OnTotalExecutedOrder self dtime ev"

text \<open>The venue delivers one callback after the other; an exception ends the replay.\<close>

fun deliver_all :: "VCBroker \<Rightarrow> callback list \<Rightarrow> (error + unit) \<times> VCBroker" where
  "deliver_all self [] = (Inr (), self)"
| "deliver_all self (cb # cbs) =
     (case deliver self cb of
        (Inl e, self') \<Rightarrow> (Inl e, self')
      | (Inr u, self') \<Rightarrow> deliver_all self' cbs)"

fun callback_id :: "callback \<Rightarrow> oid" where
  "callback_id (InMarket ev) = OrderId ev"
| "callback_id (Cancelled ev) = OrderId ev"
| "callback_id (PartialExecuted dtime ev) = OrderId ev"
| "callback_id (TotalExecuted dtime ev) = OrderId ev"

text \<open>The status that the handler of a callback gives to the order it finds.\<close>

fun callback_status :: "callback \<Rightarrow> status" where
  "callback_status (InMarket ev) = Accepted"
| "callback_status (Cancelled ev) = Canceled"
| "callback_status (PartialExecuted dtime ev) = Partial"
| "callback_status (TotalExecuted dtime ev) = Completed"

text \<open>The statuses of the orders in the queue, oldest first; the marks of \<^verbatim>\<open>next\<close> left out.\<close>

fun statuses :: "order option list \<Rightarrow> status list" where
  "statuses [] = []"
| "statuses (None # ns) = statuses ns"
| "statuses (Some ord # ns) = status ord # statuses ns"

definition notified :: "VCBroker \<Rightarrow> status list" where
  "notified self = statuses (notifs self)"

text \<open>
  The order of the statuses as the spec words it: a sequence of statuses is "a
  subsequence of Submitted, Accepted, PartiallyFilled*, (Completed|Cancelled)". Every
  status is later in that line than the one before it, but for a partial fill after a
  partial fill.
\<close>

fun spec_stage :: "status \<Rightarrow> nat" where
  "spec_stage Created = 0"
| "spec_stage Submitted = 1"
| "spec_stage Accepted = 2"
| "spec_stage Partial = 3"
| "spec_stage Completed = 4"
| "spec_stage Canceled = 4"

fun spec_monotonic :: "status list \<Rightarrow> bool" where
  "spec_monotonic [] = True"
| "spec_monotonic [x] = (x \<noteq> Created)"
| "spec_monotonic (x # y # zs) =
     (x \<noteq> Created \<and> (spec_stage x < spec_stage y \<or> (x = Partial \<and> y = Partial))
      \<and> spec_monotonic (y # zs))"

subsection \<open>A session\<close>

text \<open>
  Concrete values for the parameters: a store with its codes, a commission base class
  without commission, a data feed, a venue that accepts an order under a given
  identifier, a venue that returns None and a venue that raises.
\<close>

definition ex_store :: VCStore where
  "ex_store =
     \<lparr> OT_Market = 1, OT_Limit = 2, OT_StopMarket = 3, OT_StopLimit = 4,
       OS_Buy = 1, OS_Sell = 2,
       TR_NoRestriction = 0, TR_Date = 1, TR_CloseAuction = 2, TR_Session = 3,
       VR_NoRestriction = 0,
       IT_Future = 1, IT_Option = 2, IT_Fund = 3,
       vcctmod_Order = [''UserName'' \<mapsto> PyStr []] \<rparr>"

definition ex_comm :: "real \<Rightarrow> bool \<Rightarrow> CommInfo" where
  "ex_comm mult stocklike =
     \<lparr> getoperationcost = (\<lambda>sz p. \<bar>sz\<bar> * p),
       getcommission = (\<lambda>sz p. 0),
       profitandloss = (\<lambda>sz p newp. sz * (newp - p) * mult),
       getvaluesize = (\<lambda>sz p. \<bar>sz\<bar> * p) \<rparr>"

definition ex_bt :: backtrader where
  "ex_bt = \<lparr> CommInfoBase = ex_comm, Order_DAY = 0 \<rparr>"

definition ex_data :: data where
  "ex_data = \<lparr> tradename = ''X'', syminfo_Type = 0, syminfo_PointValue = 1 \<rparr>"

definition ex_accounts :: "account list" where
  "ex_accounts =
     [\<lparr> Account = ''ACC1'', Cash = 1000, NetWorth = 1500 \<rparr>,
      \<lparr> Account = ''ACC2'', Cash = 70, NetWorth = 80 \<rparr>]"

definition ex_broker :: VCBroker where
  "ex_broker = call (VCBroker_init ex_store None [None \<mapsto> None]) ex_accounts"

definition send_id :: "string \<Rightarrow> pyval list \<Rightarrow> error + oid" where
  "send_id i args = Inr (Some i)"

definition send_none :: "pyval list \<Rightarrow> error + oid" where
  "send_none args = Inr None"

definition send_raises :: "pyval list \<Rightarrow> error + oid" where
  "send_raises args = Inl (VenueError ''rejected'')"

definition ex_event :: "string \<Rightarrow> real \<Rightarrow> real \<Rightarrow> vcevent" where
  "ex_event i p v = \<lparr> OrderId = Some i, Price = p, Volume = v \<rparr>"

definition ex_scheme :: CommInfo where
  "ex_scheme = VCCommInfo (ex_comm 1 False)"

text \<open>An order and its request, for a call of \<^verbatim>\<open>submit\<close>.\<close>

definition ex_order :: order where
  "ex_order = Order_new Buy ex_data 10 None None (Some Market) PyNone 0"

definition ex_vco :: vcorder where
  "ex_vco =
     (case makeorder ex_broker ex_bt 0 Buy ex_data 10 None None (Some Market) PyNone 0 [] of
        Inl e \<Rightarrow> Map.empty
      | Inr vco \<Rightarrow> vco)"

text \<open>
  The session: a market buy of 10 that the venue takes as A1 and fills at 100, then a
  market sell of 10 that the venue takes as A2.
\<close>

definition ex_submitted :: VCBroker where
  "ex_submitted =
     snd (buy ex_broker ex_bt 0 (send_id ''A1'') ex_data 10 None None (Some Market) PyNone 0 [])"

definition ex_filled :: VCBroker where
  "ex_filled = snd (OnTotalExecutedOrder ex_submitted 7 (ex_event ''A1'' 100 10))"

definition ex_selling :: VCBroker where
  "ex_selling =
     snd (sell ex_filled ex_bt 0 (send_id ''A2'') ex_data 10 None None (Some Market) PyNone 0 [])"

text \<open>The orders of the session as the registry holds them after \<^verbatim>\<open>submit\<close>, and two fills.\<close>

definition ex_buy_order :: order where
  "ex_buy_order =
     \<lparr> ordtype = Buy, data = ex_data, o_size = 10, o_price = None, pricelimit = None,
       exectype = Some Market, valid = PyNone, tradeid = 0, info = [], status = Submitted,
       vcorder = Some (Some ''A1''), comminfo = Some ex_scheme, executed = [] \<rparr>"

definition ex_buy_fill :: execbit where
  "ex_buy_fill =
     \<lparr> dt = 7, ex_size = 10, ex_price = 100, closed = 0, closedvalue = 0, closedcomm = 0,
       opened = 10, openedvalue = 1000, openedcomm = 0, margin = 1000, pnl = 0,
       psize = 10, pprice = 100 \<rparr>"

definition ex_sell_order :: order where
  "ex_sell_order =
     \<lparr> ordtype = Sell, data = ex_data, o_size = 10, o_price = None, pricelimit = None,
       exectype = Some Market, valid = PyNone, tradeid = 0, info = [], status = Submitted,
       vcorder = Some (Some ''A2''), comminfo = Some ex_scheme, executed = [] \<rparr>"

definition ex_sell_fill :: execbit where
  "ex_sell_fill =
     \<lparr> dt = 8, ex_size = - 4, ex_price = 110, closed = - 4, closedvalue = 400, closedcomm = 0,
       opened = 0, openedvalue = 0, openedcomm = 0, margin = 440, pnl = 40,
       psize = 6, pprice = 100 \<rparr>"

subsection \<open>Reading a request\<close>



subsection \<open>The validity as the spec reads it\<close>


text \<open>The validities that the translator knows: None, a date, a datetime, a timedelta.\<close>

fun known_validity :: "pyval \<Rightarrow> bool" where
  "known_validity PyNone = True"
| "known_validity (PyDate t) = True"
| "known_validity (PyDatetime t) = True"
| "known_validity (PyTimedelta td) = True"
| "known_validity v = False"

section \<open>Properties\<close>

lemma ex_broker_simps:
  "orderbyid ex_broker = Map.empty"
  "notifs ex_broker = []"
  "positions ex_broker = Map.empty"
  "acc_name ex_broker = Some ''ACC1''"
  "cash ex_broker = 1000"
  "value_f ex_broker = 1500"
  "store ex_broker = ex_store"
  "comminfo_d ex_broker = [None \<mapsto> None]"
  "has_trader ex_broker"
  by (simp_all add: ex_broker_def call_def VCBroker_init_def ex_accounts_def Let_def)

subsection \<open>Callbacks for orders that the broker does not hold\<close>

text \<open>
  Claim C1. A callback that carries an order (accepted in market, cancelled, partial
  fill, total fill) whose identifier is not a key of the registry returns normally and
  leaves the whole broker as it was: positions, cash, value, registry and queue.
\<close>

theorem unknown_identifier_noop:
  "orderbyid self (OrderId ev) = None \<Longrightarrow>
     OnOrderInMarket self ev = (Inr (), self) \<and>
     OnCancelledOrder self ev = (Inr (), self) \<and>
     OnPartialExecutedOrder self dtime ev = (Inr (), self) \<and>
     OnTotalExecutedOrder self dtime ev = (Inr (), self)"
  by (simp add: OnOrderInMarket_def OnCancelledOrder_def OnPartialExecutedOrder_def
      OnTotalExecutedOrder_def OnExecutedOrder_def)

theorem unknown_identifier_noop_witness:
  "orderbyid ex_broker (OrderId (ex_event ''Z9'' 100 10)) = None \<and>
   OnOrderInMarket ex_broker (ex_event ''Z9'' 100 10) = (Inr (), ex_broker) \<and>
   OnCancelledOrder ex_broker (ex_event ''Z9'' 100 10) = (Inr (), ex_broker) \<and>
   OnPartialExecutedOrder ex_broker 7 (ex_event ''Z9'' 100 10) = (Inr (), ex_broker) \<and>
   OnTotalExecutedOrder ex_broker 7 (ex_event ''Z9'' 100 10) = (Inr (), ex_broker)"
proof -
  have h: "orderbyid ex_broker (OrderId (ex_event ''Z9'' 100 10)) = None"
    by (simp add: ex_broker_simps)
  show ?thesis using h unknown_identifier_noop [OF h, of 7] by simp
qed

subsection \<open>Balance events of other accounts\<close>

text \<open>
  Claim C8. A balance event whose account is not the selected account of the broker (or
  that arrives while no account is selected) returns normally and leaves the whole
  broker as it was, cash and value included.
\<close>

theorem balance_isolation:
  "acc_name self \<noteq> Some acct \<Longrightarrow> OnChangedBalance self accounts acct = (Inr (), self)"
  by (simp add: OnChangedBalance_def)

theorem balance_isolation_witness:
  "acc_name ex_broker \<noteq> Some ''ACC2'' \<and>
   OnChangedBalance ex_broker ex_accounts ''ACC2'' = (Inr (), ex_broker)"
proof -
  have h: "acc_name ex_broker \<noteq> Some ''ACC2''"
    by (simp add: ex_broker_simps)
  show ?thesis using h balance_isolation [OF h, of ex_accounts] by simp
qed

subsection \<open>Facts about the session\<close>

lemma statuses_append: "statuses (xs @ ys) = statuses xs @ statuses ys"
  by (induction xs rule: statuses.induct) simp_all

lemma ex_data_simps:
  "tradename ex_data = ''X''" "syminfo_Type ex_data = 0" "syminfo_PointValue ex_data = 1"
  by (simp_all add: ex_data_def)

lemma ex_makeorder_args:
  assumes "store self = ex_store" and "acc_name self = Some ''ACC1''"
  shows "\<exists>vco. makeorder self ex_bt 0 otp ex_data 10 None None (Some Market) PyNone 0 [] = Inr vco
     \<and> those (map vco sendorder_args) \<noteq> None"
  using assms
  by (cases otp)
     (simp_all add: makeorder_def makeorder_fields_def makeorder_valid_def
      makeorder_kwargs_def otypes_def osides_def ovrestriction_def
      ex_store_def sendorder_args_def of_name_def Let_def)

lemma ex_getcommissioninfo:
  assumes "store self = ex_store" and "comminfo_d self = [None \<mapsto> None]"
  shows "getcommissioninfo ex_bt self ex_data = Inr (Some ex_scheme)"
  using assms
  by (simp add: getcommissioninfo_def ex_bt_def ex_data_simps futlikes_def
      ex_store_def ex_scheme_def)

lemma submit_sent:
  assumes "those (map vco sendorder_args) \<noteq> None"
    and "getcommissioninfo bt self (data ord) = Inr ci"
  shows "submit self bt (send_id i) ord vco =
     (Inr (ord\<lparr> status := Submitted, vcorder := Some (Some i), comminfo := ci \<rparr>),
      self\<lparr> orderbyid := (orderbyid self)
               (Some i \<mapsto> ord\<lparr> status := Submitted, vcorder := Some (Some i), comminfo := ci \<rparr>),
            notifs := notifs self
               @ [Some (ord\<lparr> status := Submitted, vcorder := Some (Some i), comminfo := ci \<rparr>)] \<rparr>)"
  using assms
  by (auto simp add: submit_def send_id_def Order_submit_def notify_def Let_def)

lemma ex_submitted_eq:
  "ex_submitted = ex_broker
     \<lparr> orderbyid := [Some ''A1'' \<mapsto> ex_buy_order], notifs := [Some ex_buy_order] \<rparr>"
proof -
  obtain vco where m: "makeorder ex_broker ex_bt 0 Buy ex_data 10 None None (Some Market) PyNone 0 []
      = Inr vco" and a: "those (map vco sendorder_args) \<noteq> None"
    using ex_makeorder_args [of ex_broker Buy] by (auto simp add: ex_broker_simps)
  have c: "getcommissioninfo ex_bt ex_broker ex_data = Inr (Some ex_scheme)"
    by (simp add: ex_getcommissioninfo ex_broker_simps)
  show ?thesis
    unfolding ex_submitted_def buy_def
    by (simp add: Let_def Order_addinfo_def Order_new_def m submit_sent [OF a] c
        ex_buy_order_def ex_broker_simps)
qed

lemma getposition_eq:
  "getposition self d =
     (fst (getposition self d),
      self\<lparr> positions := (positions self)(tradename d \<mapsto> fst (getposition self d)) \<rparr>)"
  by (cases "positions self (tradename d)") (simp_all add: getposition_def map_upd_triv)

lemma OnExecutedOrder_found:
  assumes found: "orderbyid self (OrderId ev) = Some border"
    and scheme: "comminfo border = Some ci"
    and fsize: "fsize = (if ordtype border = Sell then - Volume ev else Volume ev)"
    and prior: "prior = fst (getposition self (data border))"
    and update: "Position_update prior fsize (Price ev) = (pos, fopened, fclosed)"
    and fill: "fill =
        \<lparr> dt = dtime, ex_size = fsize, ex_price = Price ev,
          closed = fclosed,
          closedvalue = getoperationcost ci fclosed (price_pos prior),
          closedcomm = getcommission ci fclosed (Price ev),
          opened = fopened,
          openedvalue = getoperationcost ci fopened (Price ev),
          openedcomm = getcommission ci fopened (Price ev),
          margin = getvaluesize ci fsize (Price ev),
          pnl = profitandloss ci (- fclosed) (price_pos prior) (Price ev),
          psize = size_pos pos, pprice = price_pos pos \<rparr>"
    and after: "border' = border\<lparr> executed := executed border @ [fill],
                                  status := (if part then Partial else Completed) \<rparr>"
  shows "OnExecutedOrder self dtime ev part =
           (Inr (),
            self\<lparr> positions := (positions self)(tradename (data border) \<mapsto> pos),
                  orderbyid := (orderbyid self)(OrderId ev \<mapsto> border'),
                  notifs := notifs self @ [Some border'] \<rparr>)"
proof -
  have sz: "(if Order_issell border then Volume ev * (- 1) else Volume ev) = fsize"
    by (simp add: fsize Order_issell_def)
  obtain rest where gp: "getposition self (data border) = (prior, rest)"
    unfolding prior by (cases "getposition self (data border)") simp
  have rest: "rest = self\<lparr> positions := (positions self)(tradename (data border) \<mapsto> prior) \<rparr>"
    using gp getposition_eq [of self "data border"] by simp
  show ?thesis
    unfolding OnExecutedOrder_def
    by (simp add: found scheme Let_def sz gp rest update fill after
        Order_execute_def Order_partial_def Order_completed_def notify_def)
qed

lemma Position_new_simps: "size_pos Position_new = 0" "price_pos Position_new = 0"
  by (simp_all add: Position_new_def)

lemma ex_scheme_simps:
  "getoperationcost ex_scheme sz p = \<bar>sz\<bar> * p"
  "getcommission ex_scheme sz p = 0"
  "profitandloss ex_scheme sz p newp = sz * (newp - p)"
  "getvaluesize ex_scheme sz p = \<bar>sz\<bar> * p"
  by (simp_all add: ex_scheme_def VCCommInfo_def ex_comm_def)

lemma ex_filled_eq:
  "ex_filled = ex_broker
     \<lparr> positions := [''X'' \<mapsto> \<lparr> size_pos = 10, price_pos = 100 \<rparr>],
       orderbyid := [Some ''A1'' \<mapsto> ex_buy_order\<lparr> executed := [ex_buy_fill], status := Completed \<rparr>],
       notifs := [Some ex_buy_order,
                  Some (ex_buy_order\<lparr> executed := [ex_buy_fill], status := Completed \<rparr>)] \<rparr>"
proof -
  have u: "Position_update Position_new 10 100 = (\<lparr> size_pos = 10, price_pos = 100 \<rparr>, 10, 0)"
    by (simp add: Position_new_def Position_update_def Let_def)
  have "OnExecutedOrder ex_submitted 7 (ex_event ''A1'' 100 10) False =
     (Inr (),
      ex_submitted\<lparr> positions := (positions ex_submitted)
            (tradename (data ex_buy_order) \<mapsto> \<lparr> size_pos = 10, price_pos = 100 \<rparr>),
        orderbyid := (orderbyid ex_submitted)(OrderId (ex_event ''A1'' 100 10) \<mapsto>
            ex_buy_order\<lparr> executed := executed ex_buy_order @ [ex_buy_fill],
                           status := (if False then Partial else Completed) \<rparr>),
        notifs := notifs ex_submitted @
            [Some (ex_buy_order\<lparr> executed := executed ex_buy_order @ [ex_buy_fill],
                           status := (if False then Partial else Completed) \<rparr>)] \<rparr>)"
    by (rule OnExecutedOrder_found [where ci = ex_scheme and fsize = 10 and prior = Position_new
          and fopened = 10 and fclosed = 0])
       (simp_all add: ex_submitted_eq ex_broker_simps ex_event_def ex_buy_order_def
          getposition_def ex_data_simps u ex_buy_fill_def ex_scheme_simps Position_new_simps)
  then show ?thesis
    by (simp add: ex_filled_def OnTotalExecutedOrder_def ex_submitted_eq ex_broker_simps
        ex_event_def ex_buy_order_def ex_data_simps)
qed

lemma ex_selling_eq:
  "ex_selling = ex_filled
     \<lparr> orderbyid := (orderbyid ex_filled)(Some ''A2'' \<mapsto> ex_sell_order),
       notifs := notifs ex_filled @ [Some ex_sell_order] \<rparr>"
proof -
  have st: "store ex_filled = ex_store" "acc_name ex_filled = Some ''ACC1''"
    "comminfo_d ex_filled = [None \<mapsto> None]"
    by (simp_all add: ex_filled_eq ex_broker_simps)
  obtain vco where m: "makeorder ex_filled ex_bt 0 Sell ex_data 10 None None (Some Market) PyNone 0 []
      = Inr vco" and a: "those (map vco sendorder_args) \<noteq> None"
    using ex_makeorder_args [of ex_filled Sell] st by auto
  have c: "getcommissioninfo ex_bt ex_filled ex_data = Inr (Some ex_scheme)"
    by (simp add: ex_getcommissioninfo st)
  show ?thesis
    unfolding ex_selling_def sell_def
    by (simp add: Let_def Order_addinfo_def Order_new_def m submit_sent [OF a] c
        ex_sell_order_def)
qed

lemma ex_selling_simps:
  "orderbyid ex_selling (Some ''A2'') = Some ex_sell_order"
  "positions ex_selling ''X'' = Some \<lparr> size_pos = 10, price_pos = 100 \<rparr>"
  by (simp_all add: ex_selling_eq ex_filled_eq)

lemma ex_vco_args:
  "those (map ex_vco sendorder_args) =
     Some [PyStr ''ACC1'', PyStr ''X'', PyInt 1, PyInt 1, PyFloat 10, PyFloat 0, PyFloat 0,
           PyInt 0, PyInt 0, PyNone]"
  by (simp add: ex_vco_def makeorder_def makeorder_fields_def makeorder_valid_def
      makeorder_kwargs_def otypes_def osides_def ovrestriction_def ex_broker_simps
      ex_store_def ex_data_def sendorder_args_def of_name_def Let_def)

subsection \<open>Polling the queue\<close>

text \<open>
  Claim C4, as the spec states it, fails: on an empty queue \<^verbatim>\<open>get_notification\<close> raises
  IndexError. The broker of the session has an empty queue before the first \<^verbatim>\<open>next\<close>.
\<close>

theorem get_notification_empty_raises:
  "notifs ex_broker = [] \<and> get_notification ex_broker = (Inl IndexError, ex_broker)"
  by (simp add: get_notification_def ex_broker_simps)

text \<open>
  Claim C4, amended. \<^verbatim>\<open>get_notification\<close> does not wait. On a queue that is not empty it
  removes the oldest entry and returns it; on an empty queue it raises IndexError and
  leaves the broker as it was. Right after \<^verbatim>\<open>next\<close> the queue holds at least the mark, so
  the call returns an entry.
\<close>

theorem get_notification_pop:
  "(notifs self = n # ns \<longrightarrow> get_notification self = (Inr n, self\<lparr> notifs := ns \<rparr>)) \<and>
   (notifs self = [] \<longrightarrow> get_notification self = (Inl IndexError, self)) \<and>
   (\<exists>m self'. get_notification (next_tick self) = (Inr m, self'))"
  by (cases "notifs self") (simp_all add: get_notification_def next_tick_def)

theorem get_notification_pop_witness:
  "notifs (next_tick ex_broker) = [None] \<and>
   get_notification (next_tick ex_broker) = (Inr None, (next_tick ex_broker)\<lparr> notifs := [] \<rparr>) \<and>
   notifs ((next_tick ex_broker)\<lparr> notifs := [] \<rparr>) = [] \<and>
   get_notification ((next_tick ex_broker)\<lparr> notifs := [] \<rparr>)
     = (Inl IndexError, (next_tick ex_broker)\<lparr> notifs := [] \<rparr>)"
proof -
  have h: "notifs (next_tick ex_broker) = [None]"
    by (simp add: next_tick_def ex_broker_simps)
  have e: "notifs ((next_tick ex_broker)\<lparr> notifs := [] \<rparr>) = []"
    by simp
  show ?thesis
    using h e get_notification_pop [of "next_tick ex_broker" None "[]"]
      get_notification_pop [of "(next_tick ex_broker)\<lparr> notifs := [] \<rparr>"]
    by simp
qed

subsection \<open>A venue that does not take the order\<close>

text \<open>
  Claim C3, as the spec states it, fails for a venue that returns no identifier: when
  \<^verbatim>\<open>SendOrder\<close> returns None, \<^verbatim>\<open>submit\<close> returns the order, and the order is in the registry
  under the key None and in the queue.
\<close>

theorem submit_none_registered:
  "orderbyid ex_broker None = None \<and>
   notified ex_broker = [] \<and>
   \<not> isl (fst (submit ex_broker ex_bt send_none ex_order ex_vco)) \<and>
   map_option status (orderbyid (snd (submit ex_broker ex_bt send_none ex_order ex_vco)) None)
     = Some Submitted \<and>
   notified (snd (submit ex_broker ex_bt send_none ex_order ex_vco)) = [Submitted]"
  by (simp add: submit_def ex_vco_args send_none_def notify_def notified_def
      ex_broker_simps Order_submit_def ex_order_def Order_new_def Let_def
      ex_getcommissioninfo)

text \<open>
  Claim C3, amended. When \<^verbatim>\<open>SendOrder\<close> raises, \<^verbatim>\<open>submit\<close> raises the same exception and
  the broker is as it was: the order is not in the registry and not in the queue. The
  value that \<^verbatim>\<open>SendOrder\<close> returns is not checked: when the call returns, the order is
  stored under the returned value, whatever it is, and queued.
\<close>

theorem submit_send_outcome:
  "those (map vco sendorder_args) = Some args \<Longrightarrow>
   (send args = Inl e \<longrightarrow> submit self bt send ord vco = (Inl e, self)) \<and>
   (send args = Inr i \<and> getcommissioninfo bt self (data ord) = Inr ci \<longrightarrow>
      submit self bt send ord vco =
        (Inr (ord\<lparr> status := Submitted, vcorder := Some i, comminfo := ci \<rparr>),
         self\<lparr> orderbyid := (orderbyid self)
                  (i \<mapsto> ord\<lparr> status := Submitted, vcorder := Some i, comminfo := ci \<rparr>),
               notifs := notifs self
                  @ [Some (ord\<lparr> status := Submitted, vcorder := Some i, comminfo := ci \<rparr>)] \<rparr>))"
  by (simp add: submit_def Order_submit_def notify_def Let_def)

theorem submit_send_outcome_witness:
  "those (map ex_vco sendorder_args) \<noteq> None \<and>
   submit ex_broker ex_bt send_raises ex_order ex_vco = (Inl (VenueError ''rejected''), ex_broker) \<and>
   fst (submit ex_broker ex_bt (send_id ''A1'') ex_order ex_vco) =
     Inr (ex_order\<lparr> status := Submitted, vcorder := Some (Some ''A1''),
                    comminfo := Some ex_scheme \<rparr>)"
  using submit_send_outcome [OF ex_vco_args, where send = send_raises
      and e = "VenueError ''rejected''" and self = ex_broker and bt = ex_bt and ord = ex_order]
    submit_send_outcome [OF ex_vco_args, where send = "send_id ''A1''" and i = "Some ''A1''"
      and self = ex_broker and bt = ex_bt and ord = ex_order and ci = "Some ex_scheme"]
  by (simp add: send_raises_def send_id_def ex_vco_args ex_getcommissioninfo ex_order_def
      Order_new_def ex_broker_simps)

subsection \<open>The figures of a fill\<close>

text \<open>
  Claim C2. For a partial or a total execution whose identifier the registry holds, with
  a commission scheme \<open>ci\<close> attached to the order: the size of the fill is the volume
  that the venue reports, negated exactly for a sell order; \<open>prior\<close> is the position
  before the update, and the fill that the order and the queue receive carries
  closedvalue = getoperationcost(closed, prior price), closedcomm = getcommission(closed,
  price), openedvalue = getoperationcost(opened, price), openedcomm =
  getcommission(opened, price), pnl = profitandloss(-closed, prior price, price) and
  margin = getvaluesize(size, price), all computed by \<open>ci\<close>.
\<close>

theorem executed_order_figures:
  assumes "orderbyid self (OrderId ev) = Some border"
    and "comminfo border = Some ci"
    and "fsize = (if ordtype border = Sell then - Volume ev else Volume ev)"
    and "prior = fst (getposition self (data border))"
    and "Position_update prior fsize (Price ev) = (pos, fopened, fclosed)"
    and "fill =
        \<lparr> dt = dtime, ex_size = fsize, ex_price = Price ev,
          closed = fclosed,
          closedvalue = getoperationcost ci fclosed (price_pos prior),
          closedcomm = getcommission ci fclosed (Price ev),
          opened = fopened,
          openedvalue = getoperationcost ci fopened (Price ev),
          openedcomm = getcommission ci fopened (Price ev),
          margin = getvaluesize ci fsize (Price ev),
          pnl = profitandloss ci (- fclosed) (price_pos prior) (Price ev),
          psize = size_pos pos, pprice = price_pos pos \<rparr>"
  shows "OnPartialExecutedOrder self dtime ev =
           (Inr (),
            self\<lparr> positions := (positions self)(tradename (data border) \<mapsto> pos),
                  orderbyid := (orderbyid self)(OrderId ev \<mapsto>
                    border\<lparr> executed := executed border @ [fill], status := Partial \<rparr>),
                  notifs := notifs self @
                    [Some (border\<lparr> executed := executed border @ [fill], status := Partial \<rparr>)] \<rparr>)
       \<and> OnTotalExecutedOrder self dtime ev =
           (Inr (),
            self\<lparr> positions := (positions self)(tradename (data border) \<mapsto> pos),
                  orderbyid := (orderbyid self)(OrderId ev \<mapsto>
                    border\<lparr> executed := executed border @ [fill], status := Completed \<rparr>),
                  notifs := notifs self @
                    [Some (border\<lparr> executed := executed border @ [fill], status := Completed \<rparr>)] \<rparr>)"
  unfolding OnPartialExecutedOrder_def OnTotalExecutedOrder_def
  using OnExecutedOrder_found [OF assms, where part = True]
    OnExecutedOrder_found [OF assms, where part = False]
  by simp

theorem executed_order_figures_witness:
  "orderbyid ex_selling (OrderId (ex_event ''A2'' 110 4)) = Some ex_sell_order \<and>
   comminfo ex_sell_order = Some ex_scheme \<and>
   fst (getposition ex_selling (data ex_sell_order)) = \<lparr> size_pos = 10, price_pos = 100 \<rparr> \<and>
   Position_update \<lparr> size_pos = 10, price_pos = 100 \<rparr> (- 4) 110
     = (\<lparr> size_pos = 6, price_pos = 100 \<rparr>, 0, - 4) \<and>
   OnPartialExecutedOrder ex_selling 8 (ex_event ''A2'' 110 4) =
     (Inr (),
      ex_selling\<lparr> positions := (positions ex_selling)(''X'' \<mapsto> \<lparr> size_pos = 6, price_pos = 100 \<rparr>),
        orderbyid := (orderbyid ex_selling)(Some ''A2'' \<mapsto>
          ex_sell_order\<lparr> executed := [ex_sell_fill], status := Partial \<rparr>),
        notifs := notifs ex_selling @
          [Some (ex_sell_order\<lparr> executed := [ex_sell_fill], status := Partial \<rparr>)] \<rparr>)"
proof -
  have a: "orderbyid ex_selling (OrderId (ex_event ''A2'' 110 4)) = Some ex_sell_order"
    by (simp add: ex_event_def ex_selling_simps)
  have b: "comminfo ex_sell_order = Some ex_scheme"
    by (simp add: ex_sell_order_def)
  have c: "- 4 = (if ordtype ex_sell_order = Sell then - Volume (ex_event ''A2'' 110 4)
      else Volume (ex_event ''A2'' 110 4))"
    by (simp add: ex_sell_order_def ex_event_def)
  have d: "\<lparr> size_pos = 10, price_pos = 100 \<rparr> = fst (getposition ex_selling (data ex_sell_order))"
    by (simp add: getposition_def ex_sell_order_def ex_data_simps ex_selling_simps)
  have e: "Position_update \<lparr> size_pos = 10, price_pos = 100 \<rparr> (- 4) (Price (ex_event ''A2'' 110 4))
     = (\<lparr> size_pos = 6, price_pos = 100 \<rparr>, 0, - 4)"
    by (simp add: Position_update_def ex_event_def Let_def)
  have f: "ex_sell_fill =
        \<lparr> dt = 8, ex_size = - 4, ex_price = Price (ex_event ''A2'' 110 4),
          closed = - 4,
          closedvalue = getoperationcost ex_scheme (- 4) (price_pos \<lparr> size_pos = 10, price_pos = 100 \<rparr>),
          closedcomm = getcommission ex_scheme (- 4) (Price (ex_event ''A2'' 110 4)),
          opened = 0,
          openedvalue = getoperationcost ex_scheme 0 (Price (ex_event ''A2'' 110 4)),
          openedcomm = getcommission ex_scheme 0 (Price (ex_event ''A2'' 110 4)),
          margin = getvaluesize ex_scheme (- 4) (Price (ex_event ''A2'' 110 4)),
          pnl = profitandloss ex_scheme (- (- 4)) (price_pos \<lparr> size_pos = 10, price_pos = 100 \<rparr>)
                  (Price (ex_event ''A2'' 110 4)),
          psize = size_pos \<lparr> size_pos = 6, price_pos = 100 \<rparr>,
          pprice = price_pos \<lparr> size_pos = 6, price_pos = 100 \<rparr> \<rparr>"
    by (simp add: ex_sell_fill_def ex_scheme_simps ex_event_def)
  show ?thesis
    using a b d [symmetric] e executed_order_figures [OF a b c d e f]
    by (simp add: ex_event_def ex_sell_order_def ex_data_simps)
qed

subsection \<open>The statuses of an order\<close>

lemma deliver_found:
  assumes found: "orderbyid self (callback_id cb) = Some border"
    and scheme: "comminfo border \<noteq> None"
  shows "\<exists>self' border'. deliver self cb = (Inr (), self')
     \<and> orderbyid self' (callback_id cb) = Some border'
     \<and> comminfo border' = comminfo border
     \<and> status border' = callback_status cb
     \<and> notifs self' = notifs self @ [Some border']"
proof (cases cb)
  case (InMarket ev)
  then show ?thesis
    using found by (simp add: OnOrderInMarket_def Order_accept_def notify_def Let_def)
next
  case (Cancelled ev)
  then show ?thesis
    using found by (simp add: OnCancelledOrder_def Order_cancel_def notify_def Let_def)
next
  case (PartialExecuted dtime ev)
  obtain ci where ci: "comminfo border = Some ci"
    using scheme by auto
  obtain pos fopened fclosed where
    u: "Position_update (fst (getposition self (data border)))
          (if ordtype border = Sell then - Volume ev else Volume ev) (Price ev)
        = (pos, fopened, fclosed)"
    by (metis prod_cases3)
  from PartialExecuted found have f: "orderbyid self (OrderId ev) = Some border"
    by simp
  show ?thesis
    using PartialExecuted ci
      OnExecutedOrder_found [OF f ci refl refl u refl refl, of dtime True]
    by (simp add: OnPartialExecutedOrder_def)
next
  case (TotalExecuted dtime ev)
  obtain ci where ci: "comminfo border = Some ci"
    using scheme by auto
  obtain pos fopened fclosed where
    u: "Position_update (fst (getposition self (data border)))
          (if ordtype border = Sell then - Volume ev else Volume ev) (Price ev)
        = (pos, fopened, fclosed)"
    by (metis prod_cases3)
  from TotalExecuted found have f: "orderbyid self (OrderId ev) = Some border"
    by simp
  show ?thesis
    using TotalExecuted ci
      OnExecutedOrder_found [OF f ci refl refl u refl refl, of dtime False]
    by (simp add: OnTotalExecutedOrder_def)
qed

lemma deliver_all_found:
  assumes "orderbyid self i = Some border"
    and "comminfo border \<noteq> None"
    and "\<forall>cb \<in> set cbs. callback_id cb = i"
  shows "\<exists>self' border'. deliver_all self cbs = (Inr (), self')
     \<and> orderbyid self' i = Some border'
     \<and> status border' = last (status border # map callback_status cbs)
     \<and> notified self' = notified self @ map callback_status cbs"
  using assms
proof (induction cbs arbitrary: self border)
  case Nil
  then show ?case by simp
next
  case (Cons cb cbs)
  from Cons.prems have i: "callback_id cb = i" by simp
  obtain mid border1 where
    d: "deliver self cb = (Inr (), mid)"
    and f: "orderbyid mid i = Some border1"
    and c: "comminfo border1 = comminfo border"
    and s: "status border1 = callback_status cb"
    and n: "notifs mid = notifs self @ [Some border1]"
    using deliver_found [of self cb border] Cons.prems(1,2) i by auto
  have "\<exists>self' border'. deliver_all mid cbs = (Inr (), self')
     \<and> orderbyid self' i = Some border'
     \<and> status border' = last (status border1 # map callback_status cbs)
     \<and> notified self' = notified mid @ map callback_status cbs"
    using Cons.IH [of mid border1] f c Cons.prems(2,3) by simp
  then show ?case
    using d s n by (auto simp add: notified_def statuses_append)
qed

text \<open>
  Claim C5, as the spec states it, fails: after the total fill of the buy order of the
  session the order is Completed, and the callback that the order is in the market makes
  it Accepted again. The queue then holds Submitted, Completed, Accepted, which is not in
  the order of the spec.
\<close>

theorem accepted_after_completed:
  "map_option status (orderbyid ex_filled (Some ''A1'')) = Some Completed \<and>
   notified ex_filled = [Submitted, Completed] \<and>
   fst (OnOrderInMarket ex_filled (ex_event ''A1'' 100 10)) = Inr () \<and>
   map_option status
     (orderbyid (snd (OnOrderInMarket ex_filled (ex_event ''A1'' 100 10))) (Some ''A1''))
     = Some Accepted \<and>
   notified (snd (OnOrderInMarket ex_filled (ex_event ''A1'' 100 10)))
     = [Submitted, Completed, Accepted] \<and>
   \<not> spec_monotonic (notified (snd (OnOrderInMarket ex_filled (ex_event ''A1'' 100 10))))"
  by (simp add: ex_filled_eq OnOrderInMarket_def ex_event_def Order_accept_def notify_def
      notified_def ex_buy_order_def Let_def)

text \<open>
  Claim C5, amended. For an order that the registry holds with a commission scheme, every
  callback for its identifier sets the status that belongs to the callback, whatever the
  status was: Accepted, Canceled, Partial or Completed. The statuses that the queue
  receives are those of the callbacks in the order of their arrival, and the order ends
  with the status of the last callback. So the queue shows the order of the spec exactly
  when the callbacks arrive in that order.
\<close>

theorem status_follows_callbacks:
  assumes "orderbyid self i = Some border"
    and "comminfo border \<noteq> None"
    and "\<forall>cb \<in> set cbs. callback_id cb = i"
  shows "\<exists>self'. deliver_all self cbs = (Inr (), self')
     \<and> map_option status (orderbyid self' i) = Some (last (status border # map callback_status cbs))
     \<and> notified self' = notified self @ map callback_status cbs
     \<and> (spec_monotonic (notified self') \<longleftrightarrow>
          spec_monotonic (notified self @ map callback_status cbs))"
  using deliver_all_found [OF assms] by auto

theorem status_follows_callbacks_witness:
  "orderbyid ex_submitted (Some ''A1'') = Some ex_buy_order \<and>
   comminfo ex_buy_order \<noteq> None \<and>
   map callback_id [InMarket (ex_event ''A1'' 0 0), PartialExecuted 7 (ex_event ''A1'' 100 4),
        TotalExecuted 8 (ex_event ''A1'' 100 6)] = [Some ''A1'', Some ''A1'', Some ''A1''] \<and>
   (\<exists>self'. deliver_all ex_submitted
        [InMarket (ex_event ''A1'' 0 0), PartialExecuted 7 (ex_event ''A1'' 100 4),
         TotalExecuted 8 (ex_event ''A1'' 100 6)] = (Inr (), self')
      \<and> map_option status (orderbyid self' (Some ''A1'')) = Some Completed
      \<and> notified self' = [Submitted, Accepted, Partial, Completed]
      \<and> spec_monotonic (notified self'))"
proof -
  have a: "orderbyid ex_submitted (Some ''A1'') = Some ex_buy_order"
    by (simp add: ex_submitted_eq)
  have b: "comminfo ex_buy_order \<noteq> None"
    by (simp add: ex_buy_order_def)
  have c: "\<forall>cb \<in> set [InMarket (ex_event ''A1'' 0 0), PartialExecuted 7 (ex_event ''A1'' 100 4),
        TotalExecuted 8 (ex_event ''A1'' 100 6)]. callback_id cb = Some ''A1''"
    by (simp add: ex_event_def)
  have n: "notified ex_submitted = [Submitted]"
    by (simp add: ex_submitted_eq notified_def ex_buy_order_def)
  show ?thesis
    using a b status_follows_callbacks [OF a b c]
    by (simp add: n ex_event_def)
qed

subsection \<open>The translator\<close>

lemma makeorder_kwargs_Cons:
  "makeorder_kwargs ((k, v) # kwargs) ord =
     makeorder_kwargs kwargs (if hasattr ord k then ord(k \<mapsto> v) else ord)"
  by (simp add: makeorder_kwargs_def)

lemma makeorder_kwargs_Nil: "makeorder_kwargs [] ord = ord"
  by (simp add: makeorder_kwargs_def)


lemma osides_total: "\<exists>c. osides st otp = Some c"
  by (cases otp) (simp_all add: osides_def)

lemma otypes_Some: "\<exists>c. otypes st (Some et) = Some c"
  by (cases et) (simp_all add: otypes_def)

lemma otypes_None: "otypes st None = None"
  by (simp add: otypes_def)

lemma makeorder_fields_Some:
  "\<exists>ord. makeorder_fields self otp d sz pr plimit (Some et) tid = Inr ord"
  using osides_total [of "store self" otp] otypes_Some [of "store self" et]
  by (auto simp add: makeorder_fields_def Let_def)

lemma makeorder_fields_None:
  "makeorder_fields self otp d sz pr plimit None tid = Inl KeyError"
  by (simp add: makeorder_fields_def otypes_None)





lemma makeorder_kwargs_dom: "dom (makeorder_kwargs kwargs ord) = dom ord"
proof (induction kwargs arbitrary: ord)
  case Nil
  then show ?case by (simp add: makeorder_kwargs_Nil)
next
  case (Cons kv kwargs)
  obtain k v where kv: "kv = (k, v)" by (cases kv)
  show ?case
    unfolding kv makeorder_kwargs_Cons Cons.IH
    by (auto simp add: hasattr_def)
qed





lemma makeorder_valid_open:
  assumes "et \<noteq> Close"
  shows "makeorder_valid self bt now (Some et) PyNone ord =
       Inr (ord(''ValidDate'' \<mapsto> PyNone,
                ''TimeRestriction'' \<mapsto> PyInt (TR_NoRestriction (store self))))"
    and "makeorder_valid self bt now (Some et) (PyDate t) ord =
       Inr (ord(''TimeRestriction'' \<mapsto> PyInt (TR_Date (store self)),
                ''ValidDate'' \<mapsto> PyDate t))"
    and "makeorder_valid self bt now (Some et) (PyDatetime t) ord =
       Inr (ord(''TimeRestriction'' \<mapsto> PyInt (TR_Date (store self)),
                ''ValidDate'' \<mapsto> PyDatetime t))"
    and "makeorder_valid self bt now (Some et) (PyTimedelta (Order_DAY bt)) ord =
       Inr (ord(''ValidDate'' \<mapsto> PyNone,
                ''TimeRestriction'' \<mapsto> PyInt (TR_Session (store self))))"
    and "td \<noteq> Order_DAY bt \<Longrightarrow>
       makeorder_valid self bt now (Some et) (PyTimedelta td) ord =
       Inr (ord(''TimeRestriction'' \<mapsto> PyInt (TR_Date (store self)),
                ''ValidDate'' \<mapsto> PyDatetime (now + td)))"
    and "makeorder_valid self bt now (Some et) (PyInt n) ord = Inl AttributeError"
    and "makeorder_valid self bt now (Some et) (PyFloat x) ord = Inl AttributeError"
    and "makeorder_valid self bt now (Some et) (PyStr s) ord = Inl AttributeError"
  using assms by (simp_all add: makeorder_valid_def Let_def fun_upd_twist)






text \<open>
  Claim C10. For an order that is not a close order and a validity that is neither None
  nor a date, a datetime or a timedelta, the translator raises: AttributeError from the
  read of \<^verbatim>\<open>self.valid\<close>, or KeyError before that when the kind is None. \<^verbatim>\<open>buy\<close> and
  \<^verbatim>\<open>sell\<close> raise the same exception and leave the broker as it was.
\<close>

theorem unknown_validity_raises:
  assumes "etp \<noteq> Some Close"
    and "\<not> known_validity vld"
  shows "makeorder self bt now otp d sz pr plimit etp vld tid kwargs
       = Inl (if etp = None then KeyError else AttributeError)
     \<and> buy self bt now send d sz pr plimit etp vld tid kwargs
       = (Inl (if etp = None then KeyError else AttributeError), self)
     \<and> sell self bt now send d sz pr plimit etp vld tid kwargs
       = (Inl (if etp = None then KeyError else AttributeError), self)"
proof -
  have m: "makeorder self bt now otp d sz pr plimit etp vld tid kwargs
       = Inl (if etp = None then KeyError else AttributeError)" for otp
  proof (cases etp)
    case None
    then show ?thesis
      by (simp add: makeorder_def makeorder_fields_None)
  next
    case (Some et)
    with assms(1) have ne: "et \<noteq> Close"
      by simp
    obtain ord0 where f: "makeorder_fields self otp d sz pr plimit (Some et) tid = Inr ord0"
      using makeorder_fields_Some by blast
    have "makeorder_valid self bt now (Some et) vld ord0 = Inl AttributeError"
      using assms(2) makeorder_valid_open(6,7,8) [OF ne, where self = self and bt = bt
          and now = now and ord = ord0]
      by (cases vld) simp_all
    then show ?thesis
      by (simp add: Some makeorder_def f)
  qed
  show ?thesis
    by (simp add: m buy_def sell_def Let_def)
qed

theorem unknown_validity_raises_witness:
  "Some Market \<noteq> Some Close \<and> \<not> known_validity (PyInt 5) \<and>
   makeorder ex_broker ex_bt 0 Buy ex_data 10 None None (Some Market) (PyInt 5) 0 []
     = Inl AttributeError \<and>
   buy ex_broker ex_bt 0 (send_id ''A1'') ex_data 10 None None (Some Market) (PyInt 5) 0 []
     = (Inl AttributeError, ex_broker) \<and>
   sell ex_broker ex_bt 0 (send_id ''A1'') ex_data 10 None None (Some Market) (PyInt 5) 0 []
     = (Inl AttributeError, ex_broker)"
proof -
  have a: "Some Market \<noteq> Some Close"
    by simp
  have b: "\<not> known_validity (PyInt 5)"
    by simp
  show ?thesis
    using a b unknown_validity_raises [OF a b, of ex_broker ex_bt 0 Buy ex_data 10 None None 0
        "[]" "send_id ''A1''"]
    by simp
qed

end
